theory Spec2Isabelle
  imports Complex_Main "HOL-Library.AList" "HOL-Library.Char_ord"
begin

section \<open>JavaScript values used by the recommender\<close>

text \<open>
  The recommender keeps its feature vectors, its IDF table and the user profile in plain
  objects used as dictionaries from strings to numbers. An object enumerates its string
  keys in insertion order and an assignment to an existing key keeps the key's position,
  which is what \<open>AList.update\<close> does on an association list. Numbers are modelled as
  mathematical reals: the rounding error of IEEE doubles, \<open>NaN\<close> and the infinities are
  not represented, except for the cosine similarity, which is also given on doubles,
  operation by operation, where its range is at stake. Strings are lists of characters;
  trimming and lower-casing act on the ASCII range and leave every other character
  unchanged.
\<close>

type_synonym dict = "(string \<times> real) list"

definition lookup :: "dict \<Rightarrow> string \<Rightarrow> real option" where
  \<comment> \<open>\<open>obj[key]\<close>; \<open>None\<close> is \<open>undefined\<close>\<close>
  "lookup d k = map_of d k"

definition assign :: "string \<Rightarrow> real \<Rightarrow> dict \<Rightarrow> dict" where
  \<comment> \<open>\<open>obj[key] = v\<close>\<close>
  "assign k v d = AList.update k v d"

definition keys :: "dict \<Rightarrow> string list" where
  \<comment> \<open>\<open>Object.keys(obj)\<close>\<close>
  "keys d = map fst d"

definition or_else :: "real option \<Rightarrow> real \<Rightarrow> real" where
  \<comment> \<open>\<open>x || d\<close> on a number or \<open>undefined\<close>: the falsy numbers are \<open>undefined\<close> and 0\<close>
  "or_else x d = (case x of None \<Rightarrow> d | Some v \<Rightarrow> if v = 0 then d else v)"

definition new_Set :: "'a list \<Rightarrow> 'a list" where
  \<comment> \<open>\<open>new Set(xs)\<close> in its iteration order: the first occurrence of every element\<close>
  "new_Set xs = fold (\<lambda>x s. if x \<in> set s then s else s @ [x]) xs []"

subsection \<open>Strings\<close>

definition is_space :: "char \<Rightarrow> bool" where
  "is_space c = (c \<in> set [CHR 0x09, CHR 0x0A, CHR 0x0B, CHR 0x0C, CHR 0x0D, CHR 0x20])"

definition trim :: "string \<Rightarrow> string" where
  "trim s = rev (dropWhile is_space (rev (dropWhile is_space s)))"

fun index_of :: "'a \<Rightarrow> 'a list \<Rightarrow> nat option" where
  "index_of x [] = None"
| "index_of x (y # ys) =
     (if x = y then Some 0 else (case index_of x ys of None \<Rightarrow> None | Some i \<Rightarrow> Some (Suc i)))"

definition lower_char :: "char \<Rightarrow> char" where
  "lower_char c =
     (case index_of c ''ABCDEFGHIJKLMNOPQRSTUVWXYZ'' of
        None \<Rightarrow> c
      | Some i \<Rightarrow> ''abcdefghijklmnopqrstuvwxyz'' ! i)"

definition toLowerCase :: "string \<Rightarrow> string" where
  "toLowerCase s = map lower_char s"

fun split_on :: "char \<Rightarrow> string \<Rightarrow> string list" where
  \<comment> \<open>\<open>s.split(c)\<close>: empty pieces are kept, and the empty string gives one empty piece\<close>
  "split_on c [] = [[]]"
| "split_on c (x # xs) =
     (if x = c then [] # split_on c xs
      else (case split_on c xs of [] \<Rightarrow> [[x]] | w # ws \<Rightarrow> (x # w) # ws))"

definition digit_char :: "nat \<Rightarrow> char" where
  "digit_char d = ''0123456789'' ! d"

fun show_nat :: "nat \<Rightarrow> string" where
  "show_nat n =
     (if n < 10 then [digit_char n] else show_nat (n div 10) @ [digit_char (n mod 10)])"

definition show_int :: "int \<Rightarrow> string" where
  "show_int i = (if i < 0 then ''-'' @ show_nat (nat (- i)) else show_nat (nat i))"

definition digit_value :: "nat \<Rightarrow> char \<Rightarrow> nat option" where
  \<comment> \<open>the value of a digit in radix 10 or 16, \<open>None\<close> for any other character\<close>
  "digit_value radix c =
     (case index_of (lower_char c) ''0123456789abcdef'' of
        None \<Rightarrow> None
      | Some n \<Rightarrow> if n < radix then Some n else None)"

definition is_digit :: "nat \<Rightarrow> char \<Rightarrow> bool" where
  "is_digit radix c = (digit_value radix c \<noteq> None)"

definition parseInt :: "string \<Rightarrow> int option" where
  \<comment> \<open>\<open>parseInt(s)\<close>: leading white space, a sign, a \<open>0x\<close> prefix, then the longest run of
      digits; \<open>None\<close> is \<open>NaN\<close>\<close>
  "parseInt s =
     (let s1 = dropWhile is_space s;
          neg = (take 1 s1 = ''-'');
          s2 = (if take 1 s1 = ''-'' \<or> take 1 s1 = ''+'' then drop 1 s1 else s1);
          hex = (take 2 s2 = ''0x'' \<or> take 2 s2 = ''0X'');
          radix = (if hex then 16 else 10);
          s3 = (if hex then drop 2 s2 else s2);
          ds = takeWhile (is_digit radix) s3;
          n = fold (\<lambda>c acc. acc * radix + the (digit_value radix c)) ds 0
      in if ds = [] then None else Some (if neg then - int n else int n))"

definition toFixed1 :: "real \<Rightarrow> string" where
  \<comment> \<open>\<open>x.toFixed(1)\<close> below \<open>1e21\<close>: the nearest tenth, ties to the larger magnitude\<close>
  "toFixed1 x =
     (let n = nat \<lfloor>\<bar>x\<bar> * 10 + 1 / 2\<rfloor>
      in (if x < 0 then ''-'' else '''') @ show_nat (n div 10) @ ''.'' @ show_nat (n mod 10))"

section \<open>Movies and feature extraction\<close>

text \<open>
  The fields of a movie that the recommender and \<open>User.getRecommendations\<close> read. A string
  field that is empty stands for a missing one (both are falsy); \<open>rating\<close> is a number,
  0 when the movie is unrated.
\<close>

record movie =
  title :: string
  genre :: string
  director :: string
  actors :: string
  year :: string
  rating :: real
  mood :: string

definition comma_list :: "string \<Rightarrow> string list" where
  \<comment> \<open>\<open>s.split(',').map(x => x.trim().toLowerCase())\<close>\<close>
  "comma_list s = map (\<lambda>x. toLowerCase (trim x)) (split_on CHR '','' s)"

definition decade_of :: "string \<Rightarrow> string" where
  \<comment> \<open>the text of \<open>Math.floor(parseInt(year) / 10) * 10\<close>\<close>
  "decade_of y = (case parseInt y of None \<Rightarrow> ''NaN'' | Some n \<Rightarrow> show_int ((n div 10) * 10))"

definition extractFeatures :: "movie \<Rightarrow> dict" where
  "extractFeatures movie =
     (let features = [];
          features =
            (if genre movie \<noteq> [] then
               fold (\<lambda>g. assign (''genre:'' @ g) 2.0) (comma_list (genre movie)) features
             else features);
          features =
            (if director movie \<noteq> [] \<and> director movie \<noteq> ''N/A'' \<and> director movie \<noteq> ''Unknown'' then
               fold (\<lambda>d. assign (''director:'' @ d) 1.5) (comma_list (director movie)) features
             else features);
          features =
            (if actors movie \<noteq> [] \<and> actors movie \<noteq> ''N/A'' then
               fold (\<lambda>a. assign (''actor:'' @ a) 1.0) (take 3 (comma_list (actors movie))) features
             else features);
          features =
            (if year movie \<noteq> [] then
               assign (''decade:'' @ decade_of (year movie) @ ''s'') 0.8 features
             else features);
          features =
            (if rating movie \<noteq> 0 \<and> rating movie > 0 then
               assign (''rating:'' @ (if rating movie \<ge> 4 then ''high''
                                      else if rating movie \<ge> 2.5 then ''mid'' else ''low''))
                 0.5 features
             else features);
          features =
            (if mood movie \<noteq> [] then assign (''mood:'' @ mood movie) 1.0 features
             else features)
      in features)"

section \<open>The recommender and its local pipeline\<close>

text \<open>
  The state of a \<open>MovieRecommender\<close>. \<open>serverAvailable\<close> is \<open>None\<close> while the server has
  not been probed. \<open>fetchLog\<close> is not a field of the class: it records, in order, the URL
  of every \<open>fetch\<close> the instance has issued, so that statements about which calls reach
  the network can be made.
\<close>

record recommender =
  apiUrl :: string
  serverAvailable :: "bool option"
  idfCache :: dict
  userProfile :: dict
  fetchLog :: "string list"

fun countTerm :: "string \<Rightarrow> dict \<times> string list \<Rightarrow> dict \<times> string list" where
  \<comment> \<open>the body of the loop of \<open>computeIDF\<close> over the terms of one movie\<close>
  "countTerm term (termDocCount, seenTerms) =
     (if term \<notin> set seenTerms
      then (assign term (or_else (lookup termDocCount term) 0 + 1) termDocCount,
            seenTerms @ [term])
      else (termDocCount, seenTerms))"

definition countMovie :: "movie \<Rightarrow> dict \<Rightarrow> dict" where
  \<comment> \<open>the body of the loop of \<open>computeIDF\<close> over the collection\<close>
  "countMovie movie termDocCount =
     (let features = extractFeatures movie;
          seenTerms = []
      in fst (fold countTerm (keys features) (termDocCount, seenTerms)))"

definition termDocCount :: "movie list \<Rightarrow> dict" where
  \<comment> \<open>\<open>termDocCount\<close> after the first loop of \<open>computeIDF\<close>\<close>
  "termDocCount collection = fold countMovie collection []"

definition computeIDF :: "recommender \<Rightarrow> movie list \<Rightarrow> recommender \<times> dict" where
  "computeIDF this collection =
     (let docCount = real (length collection);
          idf = fold (\<lambda>(term, count). assign term (ln (docCount / count) + 1))
                     (termDocCount collection) []
      in (this\<lparr>idfCache := idf\<rparr>, idf))"

definition applyTFIDF :: "recommender \<Rightarrow> dict \<Rightarrow> dict" where
  "applyTFIDF this features =
     fold (\<lambda>(term, tf). assign term (tf * or_else (lookup (idfCache this) term) 1))
          features []"

definition ratingBoost :: "movie \<Rightarrow> real" where
  "ratingBoost movie = (if rating movie \<ge> 4 then 1.5 else if rating movie \<ge> 3 then 1.0 else 0.7)"

definition addMovie :: "recommender \<Rightarrow> movie \<Rightarrow> dict \<times> real \<Rightarrow> dict \<times> real" where
  \<comment> \<open>the body of the loop of \<open>_buildUserProfileJS\<close> over the collection, on \<open>profile\<close>
      and \<open>count\<close>\<close>
  "addMovie this movie acc =
     (let (profile, count) = acc;
          features = extractFeatures movie;
          weighted = applyTFIDF this features
      in (fold (\<lambda>(term, value) profile.
                  assign term (or_else (lookup profile term) 0 + value * ratingBoost movie)
                    profile)
               weighted profile,
          count + 1))"

definition accumulate :: "recommender \<Rightarrow> movie list \<Rightarrow> dict \<times> real" where
  \<comment> \<open>\<open>profile\<close> and \<open>count\<close> after the loop of \<open>_buildUserProfileJS\<close> over the collection\<close>
  "accumulate this collection = fold (addMovie this) collection ([], 0)"

definition divide_all :: "real \<Rightarrow> dict \<Rightarrow> dict" where
  \<comment> \<open>\<open>Object.keys(profile).forEach(term => { profile[term] /= count })\<close>; every \<open>term\<close> is
      a key of \<open>profile\<close>, so the branch \<open>None\<close> is never taken\<close>
  "divide_all count profile =
     fold (\<lambda>term profile.
             case lookup profile term of
               None \<Rightarrow> profile
             | Some v \<Rightarrow> assign term (v / count) profile)
          (keys profile) profile"

definition buildUserProfileJS :: "recommender \<Rightarrow> movie list \<Rightarrow> recommender \<times> dict" where
  \<comment> \<open>\<open>_buildUserProfileJS\<close>\<close>
  "buildUserProfileJS this collection =
     (if length collection = 0 then (this\<lparr>userProfile := []\<rparr>, [])
      else
        let (this, _) = computeIDF this collection;
            (profile, count) = accumulate this collection;
            profile = divide_all count profile
        in (this\<lparr>userProfile := profile\<rparr>, profile))"

definition cosineSimilarity :: "dict \<Rightarrow> dict \<Rightarrow> real" where
  \<comment> \<open>in exact arithmetic; \<open>cosineSimilarityDouble\<close> below rounds every operation\<close>
  "cosineSimilarity vecA vecB =
     (let allTerms = new_Set (keys vecA @ keys vecB);
          (dotProduct, magnitudeA, magnitudeB) =
            fold (\<lambda>term (dotProduct, magnitudeA, magnitudeB).
                    let a = or_else (lookup vecA term) 0;
                        b = or_else (lookup vecB term) 0
                    in (dotProduct + a * b, magnitudeA + a * a, magnitudeB + b * b))
                 allTerms (0, 0, 0);
          magnitudeA = sqrt magnitudeA;
          magnitudeB = sqrt magnitudeB
      in if magnitudeA = 0 \<or> magnitudeB = 0 then 0
         else dotProduct / (magnitudeA * magnitudeB))"

definition scoreMovie :: "recommender \<Rightarrow> movie \<Rightarrow> recommender \<times> int" where
  \<comment> \<open>\<open>Math.round(x)\<close> is \<open>\<lfloor>x + 1/2\<rfloor>\<close>, which is \<open>round\<close>\<close>
  "scoreMovie this movie =
     (if length (keys (userProfile this)) = 0 then (this, 0)
      else
        let features = extractFeatures movie;
            weighted = applyTFIDF this features;
            similarity = cosineSimilarity (userProfile this) weighted
        in (this, round (similarity * 100)))"

subsection \<open>Document frequency\<close>

definition documentFrequency :: "movie list \<Rightarrow> string \<Rightarrow> nat" where
  \<comment> \<open>the number of movies of the collection whose feature vector has the term\<close>
  "documentFrequency collection term =
     length (filter (\<lambda>movie. term \<in> set (keys (extractFeatures movie))) collection)"

definition counted :: "(string \<Rightarrow> nat) \<Rightarrow> dict \<Rightarrow> bool" where
  \<comment> \<open>the dictionary holds the positive counts of \<open>n\<close> and nothing else\<close>
  "counted n d =
     (distinct (keys d) \<and> (\<forall>t. lookup d t = (if n t = 0 then None else Some (real (n t)))))"

subsection \<open>The profile of a collection\<close>

definition specProfile :: "dict \<Rightarrow> movie list \<Rightarrow> string \<Rightarrow> real" where
  \<comment> \<open>the weight the specification gives a term of the profile: the sum over the movies of
      extracted weight times IDF (1.0 for a term absent from the table) times boost,
      divided by the number of movies\<close>
  "specProfile idf collection t =
     (\<Sum>movie \<leftarrow> collection.
        (case lookup (extractFeatures movie) t of
           None \<Rightarrow> 0
         | Some w \<Rightarrow>
             w * (case lookup idf t of None \<Rightarrow> 1 | Some i \<Rightarrow> i) *
             (if rating movie \<ge> 4 then 1.5 else if rating movie \<ge> 3 then 1.0 else 0.7)))
     / real (length collection)"

definition contribution :: "recommender \<Rightarrow> movie \<Rightarrow> string \<Rightarrow> real" where
  \<comment> \<open>what one movie adds to the term of the profile in \<open>addMovie\<close>\<close>
  "contribution this movie t =
     (case lookup (extractFeatures movie) t of
        None \<Rightarrow> 0
      | Some tf \<Rightarrow> tf * or_else (lookup (idfCache this) t) 1 * ratingBoost movie)"

definition summed :: "recommender \<Rightarrow> movie list \<Rightarrow> dict \<Rightarrow> bool" where
  \<comment> \<open>the dictionary holds, for the terms of the movies, the sum of their contributions\<close>
  "summed this collection d =
     (distinct (keys d) \<and>
      (\<forall>t. lookup d t = (if documentFrequency collection t = 0 then None
                          else Some (\<Sum>movie \<leftarrow> collection. contribution this movie t))))"

subsection \<open>Cosine similarity as specified\<close>

definition weight_of :: "dict \<Rightarrow> string \<Rightarrow> real" where
  \<comment> \<open>the weight of a term in a vector, 0 for an absent term\<close>
  "weight_of v t = (case lookup v t of None \<Rightarrow> 0 | Some w \<Rightarrow> w)"

definition cosine_spec :: "dict \<Rightarrow> dict \<Rightarrow> real" where
  \<comment> \<open>the cosine similarity of the specification, over the union of the terms\<close>
  "cosine_spec vecA vecB =
     (let terms = set (keys vecA) \<union> set (keys vecB);
          dotProduct = (\<Sum>t \<in> terms. weight_of vecA t * weight_of vecB t);
          magnitudeA = sqrt (\<Sum>t \<in> terms. (weight_of vecA t)\<^sup>2);
          magnitudeB = sqrt (\<Sum>t \<in> terms. (weight_of vecB t)\<^sup>2)
      in if magnitudeA = 0 \<or> magnitudeB = 0 then 0
         else dotProduct / (magnitudeA * magnitudeB))"



subsection \<open>Suggestions\<close>

text \<open>
  \<open>searchTerm\<close> is \<open>None\<close> when the source leaves it \<open>undefined\<close> (a profile term without a
  colon); \<open>confidence\<close> is \<open>None\<close> for the suggestions of \<open>User.getRecommendations\<close>, which
  carry none.
\<close>

record suggestion =
  type :: string
  message :: string
  searchTerm :: "string option"
  confidence :: "int option"

definition text_of :: "string option \<Rightarrow> string" where
  \<comment> \<open>a value inside a template literal\<close>
  "text_of v = (case v of None \<Rightarrow> ''undefined'' | Some s \<Rightarrow> s)"

definition sortByWeight :: "dict \<Rightarrow> dict" where
  \<comment> \<open>\<open>entries.sort((a, b) => b[1] - a[1])\<close>: stable, by descending weight\<close>
  "sortByWeight entries = sort_key (\<lambda>(term, weight). - weight) entries"

definition second :: "string list \<Rightarrow> string option" where
  \<comment> \<open>the second element that \<open>const [type, value] = parts\<close> binds: \<open>undefined\<close> when
      there is none\<close>
  "second parts = (if length parts > 1 then Some (parts ! 1) else None)"

definition suggest :: "string \<times> real \<Rightarrow> suggestion list \<Rightarrow> suggestion list" where
  \<comment> \<open>the body of the loop over \<open>topFeatures\<close> in \<open>getSmartSuggestions\<close>\<close>
  "suggest entry suggestions =
     (let (term, weight) = entry;
          parts = split_on CHR '':'' term;
          type' = hd parts;
          value = second parts;
          suggestions =
            (if type' = ''genre'' \<and> find (\<lambda>s. type s = ''genre'') suggestions = None then
               suggestions @
                 [\<lparr>type = ''genre'',
                   message = ''Your taste profile strongly favors '' @ text_of value @
                             '' (weight: '' @ toFixed1 weight @ '')'',
                   searchTerm = value,
                   confidence = Some (min (round (weight * 20)) 99)\<rparr>]
             else suggestions);
          suggestions =
            (if type' = ''director'' \<and> find (\<lambda>s. type s = ''director'') suggestions = None then
               suggestions @
                 [\<lparr>type = ''director'',
                   message = ''You really enjoy '' @ text_of value @ [CHR 0x27] @
                             ''s filmmaking style'',
                   searchTerm = value,
                   confidence = Some (min (round (weight * 20)) 99)\<rparr>]
             else suggestions);
          suggestions =
            (if type' = ''actor'' \<and> length (filter (\<lambda>s. type s = ''actor'') suggestions) < 2 then
               suggestions @
                 [\<lparr>type = ''actor'',
                   message = ''You tend to enjoy movies with '' @ text_of value,
                   searchTerm = value,
                   confidence = Some (min (round (weight * 20)) 99)\<rparr>]
             else suggestions)
      in suggestions)"

definition rank :: "dict \<Rightarrow> suggestion list" where
  \<comment> \<open>\<open>getSmartSuggestions\<close> after the profile is built: the suggestions of a profile\<close>
  "rank profile =
     (let topFeatures = take 10 (sortByWeight profile);
          suggestions = fold suggest topFeatures []
      in take 5 suggestions)"

definition getSmartSuggestions :: "recommender \<Rightarrow> movie list \<Rightarrow> recommender \<times> suggestion list" where
  "getSmartSuggestions this collection =
     (if length collection < 2 then (this, [])
      else
        let (this, _) = buildUserProfileJS this collection
        in (this, rank (userProfile this)))"

subsection \<open>The limits on a list of suggestions\<close>

definition count_type :: "string \<Rightarrow> suggestion list \<Rightarrow> nat" where
  "count_type t ss = length (filter (\<lambda>s. type s = t) ss)"

definition from_term :: "dict \<Rightarrow> suggestion \<Rightarrow> bool" where
  \<comment> \<open>the suggestion is made of a term of the profile: its type and search term are the
      two parts of the term, its confidence is that of the weight of the term\<close>
  "from_term profile s =
     (\<exists>(term, weight) \<in> set profile.
        type s = hd (split_on CHR '':'' term) \<and>
        searchTerm s = second (split_on CHR '':'' term) \<and>
        confidence s = Some (min (round (weight * 20)) 99))"

definition suggest_inv :: "dict \<Rightarrow> suggestion list \<Rightarrow> bool" where
  \<comment> \<open>what the loop over \<open>topFeatures\<close> keeps true of \<open>suggestions\<close>\<close>
  "suggest_inv profile ss =
     (count_type ''genre'' ss \<le> 1 \<and> count_type ''director'' ss \<le> 1 \<and>
      count_type ''actor'' ss \<le> 2 \<and> (\<forall>s \<in> set ss. from_term profile s))"

definition within_limits :: "dict \<Rightarrow> suggestion list \<Rightarrow> bool" where
  "within_limits profile ss = (length ss \<le> 5 \<and> suggest_inv profile ss)"

section \<open>Cosine similarity in double precision\<close>

text \<open>
  The numbers of the source are IEEE 754 doubles, and the bounds of a quotient depend on
  how each operation rounds. This section gives the four operations of \<open>cosineSimilarity\<close>
  on doubles and the method over them. \<open>Finite m e\<close> is the number \<open>m * 2 ^ e\<close>;
  \<open>Infinity s\<close> is negative when \<open>s\<close> holds. Every operation computes its exact result, or
  enough bits of it with a last bit that records an inexact remainder, and \<open>rnd\<close> rounds
  it to 53 significant bits, to the nearest, ties to the even mantissa, with gradual
  underflow below \<open>2 ^ - 1022\<close> and \<open>Infinity\<close> from \<open>2 ^ 1024\<close> on; \<open>Math.sqrt\<close> is taken
  to be the correctly rounded square root of the processor. The two zeros are not
  told apart: they compare equal to 0, and a zero divisor arises here only as the
  underflow of a product of square roots.
\<close>

datatype double = Finite int int | Infinity bool | NaN

function bit_length :: "int \<Rightarrow> nat" where
  \<comment> \<open>the number of binary digits of a positive integer\<close>
  "bit_length n = (if n \<le> 0 then 0 else Suc (bit_length (n div 2)))"
  by pat_completeness auto
termination
  by (relation "measure nat") auto

declare bit_length.simps [simp del]

definition rnd :: "int \<Rightarrow> int \<Rightarrow> double" where
  \<comment> \<open>the double nearest to \<open>m * 2 ^ e\<close>: \<open>shift\<close> low bits are dropped, so that 53 bits
      remain and the exponent is not below \<open>- 1074\<close>\<close>
  "rnd m e =
     (if m = 0 then Finite 0 0
      else
        let n = \<bar>m\<bar>;
            shift = max (int (bit_length n) - 53) (- 1074 - e);
            d = 2 ^ nat shift;
            q = (if shift \<le> 0 then n
                 else if n mod d > d div 2 \<or> (n mod d = d div 2 \<and> odd (n div d))
                      then n div d + 1 else n div d);
            e' = (if shift \<le> 0 then e else e + shift)
        in if q = 0 then Finite 0 0
           else if int (bit_length q) + e' > 1024 then Infinity (m < 0)
           else Finite (if m < 0 then - q else q) e')"

fun dadd :: "double \<Rightarrow> double \<Rightarrow> double" where
  \<comment> \<open>\<open>x + y\<close>\<close>
  "dadd (Finite m1 e1) (Finite m2 e2) =
     (let e = min e1 e2 in rnd (m1 * 2 ^ nat (e1 - e) + m2 * 2 ^ nat (e2 - e)) e)"
| "dadd (Finite m e) (Infinity s) = Infinity s"
| "dadd (Infinity s) (Finite m e) = Infinity s"
| "dadd (Infinity s1) (Infinity s2) = (if s1 = s2 then Infinity s1 else NaN)"
| "dadd NaN y = NaN"
| "dadd x NaN = NaN"

fun dmul :: "double \<Rightarrow> double \<Rightarrow> double" where
  \<comment> \<open>\<open>x * y\<close>\<close>
  "dmul (Finite m1 e1) (Finite m2 e2) = rnd (m1 * m2) (e1 + e2)"
| "dmul (Finite m e) (Infinity s) = (if m = 0 then NaN else Infinity (s \<noteq> (m < 0)))"
| "dmul (Infinity s) (Finite m e) = (if m = 0 then NaN else Infinity (s \<noteq> (m < 0)))"
| "dmul (Infinity s1) (Infinity s2) = Infinity (s1 \<noteq> s2)"
| "dmul NaN y = NaN"
| "dmul x NaN = NaN"

fun ddiv :: "double \<Rightarrow> double \<Rightarrow> double" where
  \<comment> \<open>\<open>x / y\<close>: a quotient of at least 64 bits, and one more bit that is set when the
      division leaves a remainder\<close>
  "ddiv (Finite m1 e1) (Finite m2 e2) =
     (if m2 = 0 then (if m1 = 0 then NaN else Infinity (m1 < 0))
      else if m1 = 0 then Finite 0 0
      else
        let n1 = \<bar>m1\<bar>; n2 = \<bar>m2\<bar>;
            k = nat (64 + int (bit_length n2) - int (bit_length n1));
            q = (n1 * 2 ^ k) div n2;
            sticky = (if (n1 * 2 ^ k) mod n2 = 0 then 0 else 1);
            n = 2 * q + sticky
        in rnd (if (m1 < 0) \<noteq> (m2 < 0) then - n else n) (e1 - e2 - int k - 1))"
| "ddiv (Finite m e) (Infinity s) = Finite 0 0"
| "ddiv (Infinity s) (Finite m e) = Infinity (s \<noteq> (m < 0))"
| "ddiv (Infinity s1) (Infinity s2) = NaN"
| "ddiv NaN y = NaN"
| "ddiv x NaN = NaN"

fun isqrt_bits :: "nat \<Rightarrow> int \<Rightarrow> int \<Rightarrow> int" where
  \<comment> \<open>the integer square root, one binary digit at a time from the top\<close>
  "isqrt_bits 0 n r = r"
| "isqrt_bits (Suc b) n r = isqrt_bits b n (if (r + 2 ^ b)\<^sup>2 \<le> n then r + 2 ^ b else r)"

definition isqrt :: "int \<Rightarrow> int" where
  "isqrt n = isqrt_bits (bit_length n) n 0"

fun dsqrt :: "double \<Rightarrow> double" where
  \<comment> \<open>\<open>Math.sqrt(x)\<close>: the integer square root of the mantissa scaled to at least 128 bits
      at an even exponent, and one more bit that is set when the root is inexact\<close>
  "dsqrt (Finite m e) =
     (if m < 0 then NaN
      else if m = 0 then Finite 0 0
      else
        let k0 = 128 - int (bit_length m);
            k1 = (if k0 < 0 then 0 else k0);
            k = (if even (e - k1) then k1 else k1 + 1);
            N = m * 2 ^ nat k;
            s = isqrt N;
            sticky = (if s\<^sup>2 = N then 0 else 1)
        in rnd (2 * s + sticky) ((e - k) div 2 - 1))"
| "dsqrt (Infinity s) = (if s then NaN else Infinity False)"
| "dsqrt NaN = NaN"









section \<open>The gateway to the Python server\<close>

text \<open>
  A request is \<open>fetch\<close> followed by \<open>response.json()\<close> inside one \<open>try\<close>. Its outcome is
  \<open>Rejected\<close>, when one of the two promises rejects (no connection, the 2 second abort of
  the health probe, a body that is not JSON); or \<open>JsonNull\<close>, when the body decodes to the
  JSON value \<open>null\<close>, on which reading a property throws a \<open>TypeError\<close>; or \<open>Json\<close> with
  any other decoded value. A payload under \<open>Json\<close> is the record of what the properties
  read by the methods yield: a \<open>success\<close> property that is missing or falsy is \<open>False\<close>.
  What the network answers is a parameter of every gateway method, so the methods are
  stated for every behaviour of the server. Calls are modelled one after the other, each
  running to completion.
\<close>

datatype 'a fetched = Rejected | JsonNull | Json 'a

record health_response =
  status :: "string option"

record profile_response =
  profile_success :: bool
  profile_top_traits :: "(string \<times> real) list option"

record score_response =
  score_success :: bool
  score_value :: real

record recommend_response =
  recommend_success :: bool
  recommend_suggestions :: "suggestion list"
  recommend_top_traits :: "string list option"

datatype profile_result = FromPython profile_response | FromJS dict

definition fetch :: "string \<Rightarrow> recommender \<Rightarrow> recommender" where
  \<comment> \<open>issuing a request to an endpoint of the API\<close>
  "fetch endpoint this = this\<lparr>fetchLog := fetchLog this @ [apiUrl this @ endpoint]\<rparr>"

definition checkServer :: "health_response fetched \<Rightarrow> recommender \<Rightarrow> recommender \<times> bool" where
  "checkServer reply this =
     (case serverAvailable this of
        Some cached \<Rightarrow> (this, cached)
      | None \<Rightarrow>
          let this = fetch ''/health'' this;
              this = (case reply of
                        Json data \<Rightarrow> this\<lparr>serverAvailable := Some (status data = Some ''ok'')\<rparr>
                      | JsonNull \<Rightarrow> this\<lparr>serverAvailable := Some False\<rparr>
                      | Rejected \<Rightarrow> this\<lparr>serverAvailable := Some False\<rparr>)
          in (this, the (serverAvailable this)))"

definition buildUserProfilePython ::
  "profile_response fetched \<Rightarrow> recommender \<Rightarrow> movie list \<Rightarrow> recommender \<times> profile_response option"
where
  \<comment> \<open>the method returns the decoded value as it is, reading no property of it, so a
      \<open>null\<close> body is returned as \<open>null\<close> (\<open>None\<close>) without reaching the \<open>catch\<close>\<close>
  "buildUserProfilePython reply this collection =
     (let this = fetch ''/profile'' this
      in case reply of
           Json data \<Rightarrow> (this, Some data)
         | JsonNull \<Rightarrow> (this, None)
         | Rejected \<Rightarrow> (this\<lparr>serverAvailable := Some False\<rparr>, None))"

definition scoreMoviePython ::
  "score_response fetched \<Rightarrow> recommender \<Rightarrow> movie \<Rightarrow> recommender \<times> real option"
where
  \<comment> \<open>on a \<open>null\<close> body \<open>data.success\<close> throws inside the \<open>try\<close>, and the \<open>catch\<close> runs\<close>
  "scoreMoviePython reply this movie =
     (let this = fetch ''/score'' this
      in case reply of
           Json data \<Rightarrow> (this, Some (if score_success data then score_value data else 0))
         | JsonNull \<Rightarrow> (this\<lparr>serverAvailable := Some False\<rparr>, None)
         | Rejected \<Rightarrow> (this\<lparr>serverAvailable := Some False\<rparr>, None))"

definition getSmartSuggestionsPython ::
  "recommend_response fetched \<Rightarrow> recommender \<Rightarrow> movie list
     \<Rightarrow> recommender \<times> (suggestion list \<times> string list option) option"
where
  \<comment> \<open>on a \<open>null\<close> body \<open>data.success\<close> throws inside the \<open>try\<close>, and the \<open>catch\<close> runs\<close>
  "getSmartSuggestionsPython reply this collection =
     (let this = fetch ''/recommend'' this
      in case reply of
           Json data \<Rightarrow>
             (this, if recommend_success data
                    then Some (recommend_suggestions data, recommend_top_traits data) else None)
         | JsonNull \<Rightarrow> (this\<lparr>serverAvailable := Some False\<rparr>, None)
         | Rejected \<Rightarrow> (this\<lparr>serverAvailable := Some False\<rparr>, None))"

definition buildUserProfile ::
  "health_response fetched \<Rightarrow> profile_response fetched \<Rightarrow> recommender \<Rightarrow> movie list
     \<Rightarrow> recommender \<times> profile_result"
where
  "buildUserProfile health reply this collection =
     (let (this, _) = checkServer health this;
          (this, result) =
            (if serverAvailable this = Some True
             then buildUserProfilePython reply this collection
             else (this, None))
      in case result of
           Some data \<Rightarrow>
             if profile_success data then
               (this\<lparr>userProfile :=
                        (case profile_top_traits data of
                           None \<Rightarrow> []
                         | Some traits \<Rightarrow>
                             fold (\<lambda>(feature, weight). assign feature weight) traits [])\<rparr>,
                FromPython data)
             else map_prod id FromJS (buildUserProfileJS this collection)
         | None \<Rightarrow> map_prod id FromJS (buildUserProfileJS this collection))"

definition scoreMovieAsync ::
  "health_response fetched \<Rightarrow> score_response fetched \<Rightarrow> recommender \<Rightarrow> movie
     \<Rightarrow> recommender \<times> real"
where
  "scoreMovieAsync health reply this movie =
     (let (this, _) = checkServer health this;
          (this, score) =
            (if serverAvailable this = Some True
             then scoreMoviePython reply this movie
             else (this, None))
      in case score of
           Some s \<Rightarrow> (this, s)
         | None \<Rightarrow> map_prod id real_of_int (scoreMovie this movie))"

definition getSmartSuggestionsAsync ::
  "health_response fetched \<Rightarrow> recommend_response fetched \<Rightarrow> recommender \<Rightarrow> movie list
     \<Rightarrow> recommender \<times> suggestion list"
where
  "getSmartSuggestionsAsync health reply this collection =
     (let (this, _) = checkServer health this;
          (this, result) =
            (if serverAvailable this = Some True
             then getSmartSuggestionsPython reply this collection
             else (this, None))
      in case result of
           Some (suggestions, topTraits) \<Rightarrow>
             (this\<lparr>userProfile :=
                      (case topTraits of
                         None \<Rightarrow> []
                       | Some traits \<Rightarrow>
                           fold (\<lambda>(i, t). assign t (1.0 - real i * 0.1))
                                (enumerate 0 traits) [])\<rparr>,
              suggestions)
         | None \<Rightarrow> getSmartSuggestions this collection)"

subsection \<open>Sequences of gateway calls\<close>

datatype call =
    BuildUserProfile "health_response fetched" "profile_response fetched" "movie list"
  | ScoreMovieAsync "health_response fetched" "score_response fetched" movie
  | GetSmartSuggestionsAsync "health_response fetched" "recommend_response fetched" "movie list"

datatype outcome = Profile profile_result | Score real | Suggestions "suggestion list"

fun gateway :: "call \<Rightarrow> recommender \<Rightarrow> recommender \<times> outcome" where
  "gateway (BuildUserProfile h r c) this = map_prod id Profile (buildUserProfile h r this c)"
| "gateway (ScoreMovieAsync h r m) this = map_prod id Score (scoreMovieAsync h r this m)"
| "gateway (GetSmartSuggestionsAsync h r c) this =
     map_prod id Suggestions (getSmartSuggestionsAsync h r this c)"

fun local_pipeline :: "call \<Rightarrow> recommender \<Rightarrow> recommender \<times> outcome" where
  \<comment> \<open>the same call answered by the JavaScript methods alone\<close>
  "local_pipeline (BuildUserProfile h r c) this =
     map_prod id (Profile \<circ> FromJS) (buildUserProfileJS this c)"
| "local_pipeline (ScoreMovieAsync h r m) this =
     map_prod id (Score \<circ> real_of_int) (scoreMovie this m)"
| "local_pipeline (GetSmartSuggestionsAsync h r c) this =
     map_prod id Suggestions (getSmartSuggestions this c)"

fun run :: "(call \<Rightarrow> recommender \<Rightarrow> recommender \<times> outcome) \<Rightarrow> call list \<Rightarrow> recommender
              \<Rightarrow> recommender \<times> outcome list" where
  "run exec [] this = (this, [])"
| "run exec (c # cs) this =
     (let (this, out) = exec c this;
          (this, outs) = run exec cs this
      in (this, out # outs))"

section \<open>The simple recommendations of a user\<close>

text \<open>
  \<open>User.getRecommendations\<close> reads the collection of the user and the top genre of
  \<open>getStats\<close>. The two draws of \<open>Math.random()\<close> are parameters, each in \<open>[0, 1)\<close>.
  Genre strings that name an inherited property of a plain object are not modelled.
\<close>

definition topGenre :: "movie list \<Rightarrow> string" where
  \<comment> \<open>\<open>getStats().topGenre\<close>\<close>
  "topGenre collection =
     (let genres = fold (\<lambda>m genres. assign (genre m) (or_else (lookup genres (genre m)) 0 + 1) genres)
                        collection []
      in case sortByWeight genres of
           [] \<Rightarrow> ''None''
         | entry # _ \<Rightarrow> fst entry)"

definition genreKeywords :: "string \<Rightarrow> string list" where
  \<comment> \<open>\<open>genreKeywords[g] || []\<close>\<close>
  "genreKeywords g =
     (if g = ''Action'' then [''action thriller'', ''superhero'', ''martial arts'']
      else if g = ''Comedy'' then [''comedy romance'', ''funny'', ''sitcom movie'']
      else if g = ''Drama'' then [''drama oscar'', ''biographical'', ''emotional'']
      else if g = ''Horror'' then [''horror scary'', ''ghost'', ''psychological thriller'']
      else [])"

definition pick :: "real \<Rightarrow> 'a list \<Rightarrow> 'a" where
  \<comment> \<open>\<open>xs[Math.floor(r * xs.length)]\<close>\<close>
  "pick r xs = xs ! nat \<lfloor>r * real (length xs)\<rfloor>"

definition directorCount :: "movie list \<Rightarrow> dict" where
  "directorCount collection =
     fold (\<lambda>m directorCount.
             if director m \<noteq> [] \<and> director m \<noteq> ''Unknown'' then
               let dir = trim (hd (split_on CHR '','' (director m)))
               in assign dir (or_else (lookup directorCount dir) 0 + 1) directorCount
             else directorCount)
          collection []"

definition getRecommendations :: "real \<Rightarrow> real \<Rightarrow> movie list \<Rightarrow> suggestion list" where
  "getRecommendations random1 random2 collection =
     (let suggestions = [];
          suggestions =
            (if topGenre collection \<noteq> ''None'' then
               let keywords = genreKeywords (topGenre collection)
               in if length keywords > 0 then
                    suggestions @
                      [\<lparr>type = ''genre'',
                        message = ''You love '' @ topGenre collection @ '' movies!'',
                        searchTerm = Some (pick random1 keywords),
                        confidence = None\<rparr>]
                  else suggestions
             else suggestions);
          suggestions =
            (case sortByWeight (directorCount collection) of
               [] \<Rightarrow> suggestions
             | topDirector # _ \<Rightarrow>
                 if snd topDirector \<ge> 2 then
                   suggestions @
                     [\<lparr>type = ''director'',
                       message = ''You enjoy '' @ fst topDirector @ [CHR 0x27] @ ''s work!'',
                       searchTerm = Some (fst topDirector),
                       confidence = None\<rparr>]
                 else suggestions);
          highRated = filter (\<lambda>m. rating m \<ge> 4) collection;
          suggestions =
            (if length highRated > 0 then
               let random = pick random2 highRated
               in suggestions @
                    [\<lparr>type = ''similar'',
                      message = ''You loved '' @ [CHR 0x22] @ title random @ [CHR 0x22] @ '' '' @
                                [CHR 0xE2, CHR 0x80, CHR 0x94] @
                                '' try searching for similar movies!'',
                      searchTerm = Some (toLowerCase (genre random)),
                      confidence = None\<rparr>]
             else suggestions)
      in suggestions)"

definition similar_to :: "movie \<Rightarrow> suggestion" where
  \<comment> \<open>the suggestion of type \<open>similar\<close> that \<open>getRecommendations\<close> makes of a movie\<close>
  "similar_to random =
     \<lparr>type = ''similar'',
      message = ''You loved '' @ [CHR 0x22] @ title random @ [CHR 0x22] @ '' '' @
                [CHR 0xE2, CHR 0x80, CHR 0x94] @ '' try searching for similar movies!'',
      searchTerm = Some (toLowerCase (genre random)),
      confidence = None\<rparr>"

definition showRecommendations ::
  "health_response fetched \<Rightarrow> recommend_response fetched \<Rightarrow> real \<Rightarrow> real \<Rightarrow> recommender
     \<Rightarrow> movie list \<Rightarrow> recommender \<times> suggestion list"
where
  \<comment> \<open>the suggestions \<open>showRecommendations\<close> of the application displays\<close>
  "showRecommendations health reply random1 random2 this collection =
     (let (this, mlSuggestions) = getSmartSuggestionsAsync health reply this collection;
          basicSuggestions = getRecommendations random1 random2 collection
      in (this, if length mlSuggestions > 0 then mlSuggestions else basicSuggestions))"

section \<open>Sample data\<close>

definition engine0 :: recommender where
  \<comment> \<open>a freshly constructed recommender on localhost\<close>
  "engine0 = \<lparr>apiUrl = ''http://localhost:5000/api'', serverAvailable = None,
               idfCache = [], userProfile = [], fetchLog = []\<rparr>"

definition matrix :: movie where
  "matrix = \<lparr>title = ''The Matrix'', genre = ''Action, Sci-Fi'',
              director = ''Lana Wachowski, Lilly Wachowski'',
              actors = ''Keanu Reeves, Laurence Fishburne, Carrie-Anne Moss, Hugo Weaving'',
              year = ''1999'', rating = 5, mood = ''''\<rparr>"

definition offline :: recommender where
  \<comment> \<open>a recommender whose probe of the server has failed\<close>
  "offline = engine0\<lparr>serverAvailable := Some False\<rparr>"

definition online :: recommender where
  \<comment> \<open>a recommender that has found the server and holds a one-term profile\<close>
  "online = engine0\<lparr>serverAvailable := Some True, userProfile := [(''genre:action'', 2)]\<rparr>"

definition die_hard :: movie where
  "die_hard = \<lparr>title = ''Die Hard'', genre = ''Action'', director = '''', actors = '''',
                year = '''', rating = 0, mood = ''''\<rparr>"

definition solaris :: movie where
  "solaris = \<lparr>title = ''Solaris'', genre = ''Sci-Fi'', director = ''Andrei Tarkovsky'',
               actors = '''', year = ''1972'', rating = 3, mood = ''''\<rparr>"

definition refusal :: "score_response fetched" where
  \<comment> \<open>the body \<open>{"success": false}\<close>; the absent score is never read\<close>
  "refusal = Json \<lparr>score_success = False, score_value = 0\<rparr>"

definition healthy :: "health_response fetched" where
  "healthy = Json \<lparr>status = Some ''ok''\<rparr>"

definition session :: "call list" where
  \<comment> \<open>three calls, made while the server would answer the probe and the score request\<close>
  "session =
     [ScoreMovieAsync healthy (Json \<lparr>score_success = True, score_value = 88\<rparr>) die_hard,
      BuildUserProfile healthy Rejected [matrix, die_hard],
      GetSmartSuggestionsAsync healthy Rejected []]"

definition taste :: dict where
  \<comment> \<open>a profile of six terms\<close>
  "taste = [(''genre:action'', 2), (''actor:x'', 3), (''actor:y'', 3), (''actor:z'', 3.5),
            (''director:k'', 7.02), (''genre:drama'', 2.5)]"


lemmas string_defs =
  comma_list_def toLowerCase_def lower_char_def trim_def is_space_def decade_of_def
  parseInt_def is_digit_def digit_value_def show_int_def digit_char_def

section \<open>Facts about dictionaries\<close>

lemma lookup_Nil [simp]: "lookup [] k = None"
  by (simp add: lookup_def)

lemma keys_Nil [simp]: "keys [] = []"
  by (simp add: keys_def)

lemma lookup_assign: "lookup (assign k v d) k' = (if k' = k then Some v else lookup d k')"
  by (simp add: lookup_def assign_def update_conv')

lemma keys_assign: "set (keys (assign k v d)) = insert k (set (keys d))"
  by (simp add: keys_def assign_def update_keys insert_absorb)

lemma distinct_keys_assign: "distinct (keys d) \<Longrightarrow> distinct (keys (assign k v d))"
  by (simp add: keys_def assign_def distinct_update)

lemma lookup_None_iff: "lookup d k = None \<longleftrightarrow> k \<notin> set (keys d)"
  by (simp add: lookup_def keys_def map_of_eq_None_iff)

lemma lookup_fold_const:
  "lookup (fold (\<lambda>x. assign (f x) c) xs d) k =
     (if k \<in> f ` set xs then Some c else lookup d k)"
  by (induction xs arbitrary: d) (auto simp: lookup_assign)

lemma keys_fold_const:
  "set (keys (fold (\<lambda>x. assign (f x) c) xs d)) = f ` set xs \<union> set (keys d)"
  by (induction xs arbitrary: d) (auto simp: keys_assign)

lemma distinct_keys_fold_const:
  "distinct (keys d) \<Longrightarrow> distinct (keys (fold (\<lambda>x. assign (f x) c) xs d))"
  by (induction xs arbitrary: d) (auto simp: distinct_keys_assign)

lemma distinct_set_singleton: "distinct xs \<Longrightarrow> set xs = {k} \<Longrightarrow> xs = [k]"
  by (cases xs) (auto simp: subset_singleton_iff dest!: subset_singletonD)

section \<open>Feature extraction\<close>

lemma distinct_keys_extractFeatures: "distinct (keys (extractFeatures movie))"
  by (simp add: extractFeatures_def Let_def distinct_keys_fold_const distinct_keys_assign)

lemma split_on_no_sep: "c \<notin> set s \<Longrightarrow> split_on c s = [s]"
  by (induction s) auto

lemma extractFeatures_matrix:
  "extractFeatures matrix =
     [(''genre:action'', 2), (''genre:sci-fi'', 2),
      (''director:lana wachowski'', 3 / 2), (''director:lilly wachowski'', 3 / 2),
      (''actor:keanu reeves'', 1), (''actor:laurence fishburne'', 1),
      (''actor:carrie-anne moss'', 1), (''decade:1990s'', 4 / 5), (''rating:high'', 1 / 2)]"
  by (simp add: extractFeatures_def matrix_def assign_def string_defs)

text \<open>
  C2, as the code has it. A movie whose \<open>director\<close> field is present and is neither
  \<open>N/A\<close> nor \<open>Unknown\<close> gets one \<open>director:\<close> term of weight 1.5 for every
  comma-separated name of the field, trimmed and lower-cased, and no other \<open>director:\<close>
  term; that is exactly one term when the field holds no comma. When the \<open>actors\<close> field
  is present and is not \<open>N/A\<close>, each of its first three comma-separated names gets an
  \<open>actor:\<close> term of weight 1.0, and there is no \<open>actor:\<close> term for any other name.
\<close>

theorem extractFeatures_creator_terms:
  assumes "director movie \<noteq> []" "director movie \<noteq> ''N/A''" "director movie \<noteq> ''Unknown''"
  shows "(\<forall>d \<in> set (comma_list (director movie)).
            lookup (extractFeatures movie) (''director:'' @ d) = Some 1.5) \<and>
         (\<forall>k \<in> set (keys (extractFeatures movie)).
            take 9 k = ''director:'' \<longrightarrow> drop 9 k \<in> set (comma_list (director movie))) \<and>
         (CHR '','' \<notin> set (director movie) \<longrightarrow>
            filter (\<lambda>k. take 9 k = ''director:'') (keys (extractFeatures movie)) =
              [''director:'' @ toLowerCase (trim (director movie))]) \<and>
         (actors movie \<noteq> [] \<and> actors movie \<noteq> ''N/A'' \<longrightarrow>
            (\<forall>a \<in> set (take 3 (comma_list (actors movie))).
               lookup (extractFeatures movie) (''actor:'' @ a) = Some 1.0)) \<and>
         (\<forall>k \<in> set (keys (extractFeatures movie)).
            take 6 k = ''actor:'' \<longrightarrow>
              actors movie \<noteq> [] \<and> actors movie \<noteq> ''N/A'' \<and>
              drop 6 k \<in> set (take 3 (comma_list (actors movie))))"
proof -
  let ?F = "extractFeatures movie"
  have w_dir: "\<forall>d \<in> set (comma_list (director movie)). lookup ?F (''director:'' @ d) = Some 1.5"
    using assms
    by (auto simp: extractFeatures_def Let_def lookup_fold_const lookup_assign)
  have k_dir: "\<forall>k \<in> set (keys ?F).
                 take 9 k = ''director:'' \<longrightarrow> drop 9 k \<in> set (comma_list (director movie))"
    using assms
    by (auto simp: extractFeatures_def Let_def keys_fold_const keys_assign split: if_splits)
  have w_act: "actors movie \<noteq> [] \<and> actors movie \<noteq> ''N/A'' \<longrightarrow>
                 (\<forall>a \<in> set (take 3 (comma_list (actors movie))).
                    lookup ?F (''actor:'' @ a) = Some 1.0)"
    using assms
    by (auto simp: extractFeatures_def Let_def lookup_fold_const lookup_assign)
  have k_act: "\<forall>k \<in> set (keys ?F).
                 take 6 k = ''actor:'' \<longrightarrow>
                   actors movie \<noteq> [] \<and> actors movie \<noteq> ''N/A'' \<and>
                   drop 6 k \<in> set (take 3 (comma_list (actors movie)))"
    by (auto simp: extractFeatures_def Let_def keys_fold_const keys_assign split: if_splits)
  have one: "filter (\<lambda>k. take 9 k = ''director:'') (keys ?F) =
               [''director:'' @ toLowerCase (trim (director movie))]"
    if nc: "CHR '','' \<notin> set (director movie)"
  proof -
    let ?k = "''director:'' @ toLowerCase (trim (director movie))"
    have cl: "comma_list (director movie) = [toLowerCase (trim (director movie))]"
      using nc by (simp add: comma_list_def split_on_no_sep)
    have d: "distinct (filter (\<lambda>k. take 9 k = ''director:'') (keys ?F))"
      using distinct_keys_extractFeatures by simp
    have "lookup ?F ?k = Some 1.5"
      using w_dir cl by simp
    then have "?k \<in> set (keys ?F)"
      using lookup_None_iff[of ?F ?k] by auto
    moreover have "k = ?k" if "k \<in> set (keys ?F)" "take 9 k = ''director:''" for k
    proof -
      have "drop 9 k = toLowerCase (trim (director movie))"
        using k_dir cl that by simp
      then have "take 9 k @ drop 9 k = ?k"
        using that(2) by (simp only:)
      then show ?thesis
        by (simp only: append_take_drop_id)
    qed
    moreover have "take 9 ?k = ''director:''"
      by simp
    ultimately have "set (filter (\<lambda>k. take 9 k = ''director:'') (keys ?F)) = {?k}"
      unfolding set_filter by blast
    with d show ?thesis
      by (rule distinct_set_singleton)
  qed
  show ?thesis
    using w_dir k_dir w_act k_act one by blast
qed

theorem extractFeatures_creator_terms_witness:
  "director matrix \<noteq> [] \<and> director matrix \<noteq> ''N/A'' \<and> director matrix \<noteq> ''Unknown'' \<and>
   lookup (extractFeatures matrix) ''director:lilly wachowski'' = Some 1.5 \<and>
   lookup (extractFeatures matrix) ''actor:carrie-anne moss'' = Some 1.0 \<and>
   ''actor:hugo weaving'' \<notin> set (keys (extractFeatures matrix))"
proof -
  have h: "director matrix \<noteq> []" "director matrix \<noteq> ''N/A''" "director matrix \<noteq> ''Unknown''"
    by (simp_all add: matrix_def)
  have d: "comma_list (director matrix) = [''lana wachowski'', ''lilly wachowski'']"
    by (simp add: matrix_def string_defs)
  have a: "actors matrix \<noteq> [] \<and> actors matrix \<noteq> ''N/A'' \<and>
           take 3 (comma_list (actors matrix)) =
             [''keanu reeves'', ''laurence fishburne'', ''carrie-anne moss'']"
    by (simp add: matrix_def string_defs)
  have t: "take 6 ''actor:hugo weaving'' = ''actor:''" "drop 6 ''actor:hugo weaving'' = ''hugo weaving''"
    by simp_all
  from extractFeatures_creator_terms[OF h] show ?thesis
    using h d a t by (simp only:) auto
qed

text \<open>
  C2 as stated asks for exactly one creator term. The two directors of this movie give
  two \<open>director:\<close> terms, each of weight 1.5.
\<close>

theorem extractFeatures_two_directors:
  "director matrix \<noteq> [] \<and> director matrix \<noteq> ''N/A'' \<and> director matrix \<noteq> ''Unknown'' \<and>
   extractFeatures matrix =
     [(''genre:action'', 2), (''genre:sci-fi'', 2),
      (''director:lana wachowski'', 1.5), (''director:lilly wachowski'', 1.5),
      (''actor:keanu reeves'', 1), (''actor:laurence fishburne'', 1),
      (''actor:carrie-anne moss'', 1), (''decade:1990s'', 0.8), (''rating:high'', 0.5)]"
  by (simp add: extractFeatures_matrix) (simp add: matrix_def)

section \<open>Local scoring\<close>

text \<open>
  C10. \<open>scoreMovie\<close> returns the recommender it was called on: the cached user profile, the
  cached IDF table and the availability flag (and the record of requests) are those
  before the call.
\<close>

theorem scoreMovie_read_only:
  "fst (scoreMovie this movie) = this \<and>
   userProfile (fst (scoreMovie this movie)) = userProfile this \<and>
   idfCache (fst (scoreMovie this movie)) = idfCache this \<and>
   serverAvailable (fst (scoreMovie this movie)) = serverAvailable this"
  by (simp add: scoreMovie_def Let_def)

text \<open>
  C8. On the empty collection the profile build stores and returns the empty profile and
  the suggestion operation returns no suggestion; with an empty cached profile every
  movie scores 0. The three operations are total functions of the model: none of these
  calls has a failing branch.
\<close>

theorem empty_input_is_neutral:
  "buildUserProfileJS this [] = (this\<lparr>userProfile := []\<rparr>, []) \<and>
   getSmartSuggestions this [] = (this, []) \<and>
   (userProfile this = [] \<longrightarrow> scoreMovie this movie = (this, 0))"
  by (simp add: buildUserProfileJS_def getSmartSuggestions_def scoreMovie_def)

theorem empty_input_is_neutral_witness:
  "userProfile engine0 = [] \<and> scoreMovie engine0 matrix = (engine0, 0) \<and>
   buildUserProfileJS engine0 [] = (engine0, []) \<and>
   getSmartSuggestions engine0 [] = (engine0, [])"
proof -
  have h: "userProfile engine0 = []"
    by (simp add: engine0_def)
  have e: "engine0\<lparr>userProfile := []\<rparr> = engine0"
    by (simp add: engine0_def)
  from empty_input_is_neutral[of engine0 matrix] show ?thesis
    using h e by simp
qed

section \<open>The gateway\<close>

lemma checkServer_cached:
  "serverAvailable this \<noteq> None \<Longrightarrow> checkServer reply this = (this, the (serverAvailable this))"
  by (auto simp: checkServer_def)

lemma buildUserProfileJS_frame:
  "serverAvailable (fst (buildUserProfileJS this c)) = serverAvailable this \<and>
   fetchLog (fst (buildUserProfileJS this c)) = fetchLog this"
  by (simp add: buildUserProfileJS_def computeIDF_def Let_def split: prod.splits)

lemma getSmartSuggestions_frame:
  "serverAvailable (fst (getSmartSuggestions this c)) = serverAvailable this \<and>
   fetchLog (fst (getSmartSuggestions this c)) = fetchLog this"
  using buildUserProfileJS_frame[of this c]
  by (auto simp: getSmartSuggestions_def Let_def split: prod.splits)

lemma local_pipeline_frame:
  "serverAvailable (fst (local_pipeline c this)) = serverAvailable this \<and>
   fetchLog (fst (local_pipeline c this)) = fetchLog this"
  by (cases c)
     (simp_all add: buildUserProfileJS_frame getSmartSuggestions_frame scoreMovie_def Let_def)

lemma gateway_unavailable:
  assumes "serverAvailable this = Some False"
  shows "gateway c this = local_pipeline c this"
  using assms
  by (cases c)
     (simp_all add: buildUserProfile_def scoreMovieAsync_def getSmartSuggestionsAsync_def
        checkServer_cached prod.map_comp)

text \<open>
  C9. From a recommender whose cached state is unavailable, every sequence of gateway
  calls, whatever the network would answer, runs exactly as the local pipeline does,
  leaves the state unavailable and issues no request: the server is neither called nor
  probed again.
\<close>

theorem unavailable_is_sticky:
  assumes "serverAvailable this = Some False"
  shows "run gateway cs this = run local_pipeline cs this \<and>
         serverAvailable (fst (run gateway cs this)) = Some False \<and>
         fetchLog (fst (run gateway cs this)) = fetchLog this"
  using assms
proof (induction cs arbitrary: this)
  case Nil
  then show ?case by simp
next
  case (Cons c cs)
  obtain this' out where l: "local_pipeline c this = (this', out)"
    by (cases "local_pipeline c this")
  have g: "gateway c this = (this', out)"
    using gateway_unavailable[OF Cons.prems] l by simp
  have f: "serverAvailable this' = Some False" "fetchLog this' = fetchLog this"
    using local_pipeline_frame[of c this] l Cons.prems by simp_all
  from Cons.IH[OF f(1)] show ?case
    using l g f(2) by (auto simp: Let_def split: prod.splits)
qed

theorem unavailable_is_sticky_witness:
  "serverAvailable offline = Some False \<and>
   run gateway session offline = run local_pipeline session offline \<and>
   serverAvailable (fst (run gateway session offline)) = Some False \<and>
   fetchLog (fst (run gateway session offline)) = []"
proof -
  have h: "serverAvailable offline = Some False"
    by (simp add: offline_def)
  have l: "fetchLog offline = []"
    by (simp add: offline_def engine0_def)
  note t = unavailable_is_sticky[OF h, of session, unfolded l]
  show ?thesis
    using h t by blast
qed

lemma scoreMovie_online:
  "scoreMovie (fetch ''/score'' online) die_hard = (fetch ''/score'' online, 100)"
  by (simp add: scoreMovie_def online_def engine0_def die_hard_def fetch_def keys_def
        extractFeatures_def string_defs assign_def applyTFIDF_def lookup_def or_else_def
        cosineSimilarity_def new_Set_def)

text \<open>
  C1 as stated fails on a \<open>/score\<close> response that decodes and reports no success: the
  call returns 0 although the local score of the movie is 100, and the state stays
  available.
\<close>

theorem score_refusal_returns_zero:
  "serverAvailable online = Some True \<and>
   scoreMovieAsync Rejected refusal online die_hard = (fetch ''/score'' online, 0) \<and>
   serverAvailable (fetch ''/score'' online) = Some True \<and>
   scoreMovie (fetch ''/score'' online) die_hard = (fetch ''/score'' online, 100)"
  by (simp add: scoreMovie_online)
     (simp add: scoreMovieAsync_def checkServer_cached scoreMoviePython_def refusal_def
        online_def engine0_def fetch_def)

text \<open>
  C1, as the code has it. While the cached state is available, a gateway operation whose
  remote call throws inside the \<open>try\<close> of its method makes the state unavailable at once
  and returns what the local pipeline returns from that state. That is the case when the
  request is rejected (no connection, a timeout, a body that is not JSON), for the three
  operations, and when the body decodes to \<open>null\<close>, for the item score and the suggestion
  fetch, which read \<open>data.success\<close> inside the \<open>try\<close>. When the response of a profile build
  is \<open>null\<close> or another JSON value that reports no success, or the response of a
  suggestion fetch is a JSON value other than \<open>null\<close> that reports no success, the call
  returns what the local pipeline returns and the state stays available.
\<close>

theorem remote_failure_falls_back:
  assumes "serverAvailable this = Some True"
  shows "buildUserProfile health Rejected this collection =
           map_prod id FromJS
             (buildUserProfileJS ((fetch ''/profile'' this)\<lparr>serverAvailable := Some False\<rparr>)
                collection) \<and>
         scoreMovieAsync health Rejected this movie =
           map_prod id real_of_int
             (scoreMovie ((fetch ''/score'' this)\<lparr>serverAvailable := Some False\<rparr>) movie) \<and>
         getSmartSuggestionsAsync health Rejected this collection =
           getSmartSuggestions ((fetch ''/recommend'' this)\<lparr>serverAvailable := Some False\<rparr>)
             collection \<and>
         serverAvailable (fst (buildUserProfile health Rejected this collection)) = Some False \<and>
         serverAvailable (fst (scoreMovieAsync health Rejected this movie)) = Some False \<and>
         serverAvailable (fst (getSmartSuggestionsAsync health Rejected this collection)) =
           Some False \<and>
         (\<not> profile_success pdata \<longrightarrow>
            buildUserProfile health (Json pdata) this collection =
              map_prod id FromJS (buildUserProfileJS (fetch ''/profile'' this) collection) \<and>
            serverAvailable (fst (buildUserProfile health (Json pdata) this collection)) =
              Some True) \<and>
         (\<not> recommend_success rdata \<longrightarrow>
            getSmartSuggestionsAsync health (Json rdata) this collection =
              getSmartSuggestions (fetch ''/recommend'' this) collection \<and>
            serverAvailable (fst (getSmartSuggestionsAsync health (Json rdata) this collection)) =
              Some True) \<and>
         scoreMovieAsync health JsonNull this movie =
           map_prod id real_of_int
             (scoreMovie ((fetch ''/score'' this)\<lparr>serverAvailable := Some False\<rparr>) movie) \<and>
         getSmartSuggestionsAsync health JsonNull this collection =
           getSmartSuggestions ((fetch ''/recommend'' this)\<lparr>serverAvailable := Some False\<rparr>)
             collection \<and>
         serverAvailable (fst (scoreMovieAsync health JsonNull this movie)) = Some False \<and>
         serverAvailable (fst (getSmartSuggestionsAsync health JsonNull this collection)) =
           Some False \<and>
         buildUserProfile health JsonNull this collection =
           map_prod id FromJS (buildUserProfileJS (fetch ''/profile'' this) collection) \<and>
         serverAvailable (fst (buildUserProfile health JsonNull this collection)) = Some True"
proof -
  have cs: "checkServer health this = (this, True)"
    using assms by (simp add: checkServer_cached)
  have p: "buildUserProfile health Rejected this collection =
           map_prod id FromJS
             (buildUserProfileJS ((fetch ''/profile'' this)\<lparr>serverAvailable := Some False\<rparr>)
                collection)"
    using assms by (simp add: buildUserProfile_def cs buildUserProfilePython_def)
  have s: "scoreMovieAsync health reply this movie =
           map_prod id real_of_int
             (scoreMovie ((fetch ''/score'' this)\<lparr>serverAvailable := Some False\<rparr>) movie)"
    if "reply = Rejected \<or> reply = JsonNull" for reply
    using assms that by (auto simp: scoreMovieAsync_def cs scoreMoviePython_def)
  have r: "getSmartSuggestionsAsync health reply this collection =
           getSmartSuggestions ((fetch ''/recommend'' this)\<lparr>serverAvailable := Some False\<rparr>)
             collection"
    if "reply = Rejected \<or> reply = JsonNull" for reply
    using assms that by (auto simp: getSmartSuggestionsAsync_def cs getSmartSuggestionsPython_def)
  have pj: "buildUserProfile health (Json pdata) this collection =
              map_prod id FromJS (buildUserProfileJS (fetch ''/profile'' this) collection)"
    if "\<not> profile_success pdata"
    using assms that by (simp add: buildUserProfile_def cs buildUserProfilePython_def)
  have pn: "buildUserProfile health JsonNull this collection =
              map_prod id FromJS (buildUserProfileJS (fetch ''/profile'' this) collection)"
    using assms by (simp add: buildUserProfile_def cs buildUserProfilePython_def)
  have rj: "getSmartSuggestionsAsync health (Json rdata) this collection =
              getSmartSuggestions (fetch ''/recommend'' this) collection"
    if "\<not> recommend_success rdata"
    using assms that by (simp add: getSmartSuggestionsAsync_def cs getSmartSuggestionsPython_def)
  have fa: "serverAvailable (fetch e this) = Some True" for e
    using assms by (simp add: fetch_def)
  show ?thesis
    using pj rj
    by (simp add: p s r pn buildUserProfileJS_frame getSmartSuggestions_frame scoreMovie_def
          Let_def fa)
qed

theorem remote_failure_falls_back_witness:
  "serverAvailable online = Some True \<and>
   scoreMovieAsync healthy Rejected online die_hard =
     ((fetch ''/score'' online)\<lparr>serverAvailable := Some False\<rparr>, 100) \<and>
   scoreMovieAsync healthy JsonNull online die_hard =
     ((fetch ''/score'' online)\<lparr>serverAvailable := Some False\<rparr>, 100) \<and>
   getSmartSuggestionsAsync healthy JsonNull online [] =
     ((fetch ''/recommend'' online)\<lparr>serverAvailable := Some False\<rparr>, []) \<and>
   buildUserProfile healthy JsonNull online [] =
     ((fetch ''/profile'' online)\<lparr>userProfile := []\<rparr>, FromJS []) \<and>
   \<not> recommend_success \<lparr>recommend_success = False, recommend_suggestions = [],
                          recommend_top_traits = None\<rparr> \<and>
   getSmartSuggestionsAsync healthy
       (Json \<lparr>recommend_success = False, recommend_suggestions = [],
              recommend_top_traits = None\<rparr>) online [] =
     (fetch ''/recommend'' online, [])"
proof -
  have h: "serverAvailable online = Some True"
    by (simp add: online_def)
  have l: "scoreMovie ((fetch ''/score'' online)\<lparr>serverAvailable := Some False\<rparr>) die_hard =
             ((fetch ''/score'' online)\<lparr>serverAvailable := Some False\<rparr>, 100)"
    by (simp add: scoreMovie_def online_def engine0_def die_hard_def fetch_def keys_def
          extractFeatures_def string_defs assign_def applyTFIDF_def lookup_def or_else_def
          cosineSimilarity_def new_Set_def)
  from remote_failure_falls_back[OF h, of healthy "[]" die_hard _
         "\<lparr>recommend_success = False, recommend_suggestions = [], recommend_top_traits = None\<rparr>"]
  show ?thesis
    using h l by (simp add: getSmartSuggestions_def buildUserProfileJS_def)
qed

section \<open>Recommendations for small collections\<close>

lemma getRecommendations_solaris: "getRecommendations 0 0 [solaris] = []"
  by (simp add: getRecommendations_def solaris_def topGenre_def assign_def lookup_def or_else_def
        sortByWeight_def genreKeywords_def directorCount_def trim_def is_space_def)

text \<open>
  C3 as stated fails on a collection of one movie rated 3: the ranked operation returns
  nothing, and so does the simple one; no suggestion is shown, of type \<open>similar\<close> or any
  other.
\<close>

theorem no_similar_suggestion_without_high_rating:
  "length [solaris] < 2 \<and>
   getSmartSuggestions offline [solaris] = (offline, []) \<and>
   getRecommendations 0 0 [solaris] = [] \<and>
   showRecommendations Rejected Rejected 0 0 offline [solaris] = (offline, [])"
  by (simp add: getRecommendations_solaris showRecommendations_def getSmartSuggestionsAsync_def
        checkServer_cached offline_def getSmartSuggestions_def)

lemma pick_single: "0 \<le> r \<Longrightarrow> r < 1 \<Longrightarrow> pick r [x] = x"
  by (simp add: pick_def floor_eq_iff)

lemma similar_of_single:
  assumes "0 \<le> r2" "r2 < 1"
  shows "filter (\<lambda>s. type s = ''similar'') (getRecommendations r1 r2 [m]) =
           (if rating m \<ge> 4 then [similar_to m] else [])"
  using assms
  by (simp add: getRecommendations_def Let_def pick_single similar_to_def split: list.splits)

text \<open>
  C3, as the code has it. On a collection of fewer than two movies \<open>getSmartSuggestions\<close>
  returns no suggestion and leaves the recommender as it was; when the server is
  unavailable the application then shows the simple recommendations of the user; and
  these hold a suggestion of type \<open>similar\<close>, whose search term is the lower-cased genre
  of the movie, exactly for the movies of the collection rated 4 or more: one such
  suggestion when the single movie is rated 4 or more, none otherwise. The draw of
  \<open>Math.random()\<close> lies in \<open>[0, 1)\<close>.
\<close>

theorem small_collection_recommendations:
  assumes "length collection < 2" "0 \<le> random2" "random2 < 1"
  shows "getSmartSuggestions this collection = (this, []) \<and>
         (serverAvailable this = Some False \<longrightarrow>
            showRecommendations health reply random1 random2 this collection =
              (this, getRecommendations random1 random2 collection)) \<and>
         filter (\<lambda>s. type s = ''similar'') (getRecommendations random1 random2 collection) =
           map similar_to (filter (\<lambda>m. rating m \<ge> 4) collection)"
proof -
  have g: "getSmartSuggestions this collection = (this, [])"
    using assms(1) by (simp add: getSmartSuggestions_def)
  have s: "showRecommendations health reply random1 random2 this collection =
              (this, getRecommendations random1 random2 collection)"
    if "serverAvailable this = Some False"
    using that g
    by (simp add: showRecommendations_def getSmartSuggestionsAsync_def checkServer_cached)
  have f: "filter (\<lambda>s. type s = ''similar'') (getRecommendations random1 random2 collection) =
           map similar_to (filter (\<lambda>m. rating m \<ge> 4) collection)"
  proof (cases collection)
    case Nil
    then show ?thesis
      by (simp add: getRecommendations_def topGenre_def sortByWeight_def directorCount_def)
  next
    case (Cons m ms)
    with assms(1) have "collection = [m]"
      by simp
    then show ?thesis
      using similar_of_single[OF assms(2,3)] by simp
  qed
  show ?thesis
    using g s f by blast
qed

theorem small_collection_recommendations_witness:
  "length [matrix] < 2 \<and> (0::real) \<le> 1 / 2 \<and> (1::real) / 2 < 1 \<and>
   serverAvailable offline = Some False \<and>
   getSmartSuggestions offline [matrix] = (offline, []) \<and>
   filter (\<lambda>s. type s = ''similar'') (getRecommendations 0 (1 / 2) [matrix]) =
     [similar_to matrix] \<and>
   searchTerm (similar_to matrix) = Some ''action, sci-fi''"
proof -
  have h: "length [matrix] < 2" "(0::real) \<le> 1 / 2" "(1::real) / 2 < 1"
    by simp_all
  have o: "serverAvailable offline = Some False"
    by (simp add: offline_def)
  have r: "rating matrix \<ge> 4"
    by (simp add: matrix_def)
  have t: "searchTerm (similar_to matrix) = Some ''action, sci-fi''"
    by (simp add: similar_to_def matrix_def toLowerCase_def lower_char_def)
  from small_collection_recommendations[OF h, of offline _ _ 0] show ?thesis
    using o r t by simp
qed

section \<open>Ranked suggestions\<close>

lemma count_type_append: "count_type t (xs @ ys) = count_type t xs + count_type t ys"
  by (simp add: count_type_def)

lemma find_None_count: "find (\<lambda>s. type s = t) ss = None \<Longrightarrow> count_type t ss = 0"
  by (simp add: count_type_def find_None_iff filter_empty_conv)

lemma count_type_take: "count_type t (take n ss) \<le> count_type t ss"
proof -
  have "count_type t ss = count_type t (take n ss) + count_type t (drop n ss)"
    by (metis append_take_drop_id count_type_append)
  then show ?thesis by simp
qed

lemma suggest_inv_step:
  assumes "(term, weight) \<in> set profile" "suggest_inv profile ss"
  shows "suggest_inv profile (suggest (term, weight) ss)"
proof -
  let ?ty = "hd (split_on CHR '':'' term)"
  have ft: "from_term profile
              \<lparr>type = ?ty, message = m,
               searchTerm = second (split_on CHR '':'' term),
               confidence = Some (min (round (weight * 20)) 99)\<rparr>" for m
    using assms(1) by (auto simp: from_term_def)
  consider (g) "?ty = ''genre''" | (d) "?ty = ''director''" | (a) "?ty = ''actor''"
    | (n) "?ty \<noteq> ''genre''" "?ty \<noteq> ''director''" "?ty \<noteq> ''actor''"
    by blast
  then show ?thesis
  proof cases
    case g
    then show ?thesis
      using assms(2) ft
      by (auto simp: suggest_def Let_def suggest_inv_def count_type_append find_None_count)
         (auto simp: count_type_def)
  next
    case d
    then show ?thesis
      using assms(2) ft
      by (auto simp: suggest_def Let_def suggest_inv_def count_type_append find_None_count)
         (auto simp: count_type_def)
  next
    case a
    then show ?thesis
      using assms(2) ft
      by (auto simp: suggest_def Let_def suggest_inv_def count_type_append)
         (auto simp: count_type_def)
  next
    case n
    then show ?thesis
      using assms(2) by (simp add: suggest_def Let_def)
  qed
qed

lemma suggest_inv_fold:
  "set entries \<subseteq> set profile \<Longrightarrow> suggest_inv profile ss \<Longrightarrow>
   suggest_inv profile (fold suggest entries ss)"
proof (induction entries arbitrary: ss)
  case Nil
  then show ?case by simp
next
  case (Cons e entries)
  obtain t w where e: "e = (t, w)"
    by (cases e)
  with Cons.prems have "suggest_inv profile (suggest e ss)"
    using suggest_inv_step[of t w profile ss] by simp
  with Cons show ?case by simp
qed

lemma rank_within_limits: "within_limits profile (rank profile)"
proof -
  let ?top = "take 10 (sortByWeight profile)"
  have "set ?top \<subseteq> set profile"
    using set_take_subset[of 10 "sortByWeight profile"] by (simp add: sortByWeight_def)
  moreover have "suggest_inv profile []"
    by (simp add: suggest_inv_def count_type_def)
  ultimately have inv: "suggest_inv profile (fold suggest ?top [])"
    by (rule suggest_inv_fold)
  have "\<forall>s \<in> set (take 5 (fold suggest ?top [])). from_term profile s"
    using inv in_set_takeD by (fastforce simp: suggest_inv_def)
  moreover have "count_type t (take 5 (fold suggest ?top [])) \<le> n"
    if "count_type t (fold suggest ?top []) \<le> n" for t n
    using that count_type_take[of t 5 "fold suggest ?top []"] by simp
  ultimately show ?thesis
    using inv by (simp add: within_limits_def rank_def Let_def suggest_inv_def)
qed

text \<open>
  C6. The suggestions of every profile, and so those \<open>getSmartSuggestions\<close> returns for
  the profile it has built, are at most 5, with at most one of type \<open>genre\<close>, at most one
  of type \<open>director\<close> and at most two of type \<open>actor\<close>; each is made of a term of the
  profile and its confidence is \<open>min (round (weight * 20)) 99\<close> for the weight of that term.
\<close>

theorem suggestions_within_limits:
  "within_limits profile (rank profile) \<and>
   within_limits (userProfile (fst (getSmartSuggestions this collection)))
     (snd (getSmartSuggestions this collection))"
proof -
  have "within_limits p []" for p
    by (simp add: within_limits_def suggest_inv_def count_type_def)
  then show ?thesis
    using rank_within_limits
    by (auto simp: getSmartSuggestions_def Let_def split: prod.splits)
qed

theorem suggestions_within_limits_witness:
  "map type (rank taste) = [''director'', ''actor'', ''actor'', ''genre''] \<and>
   map confidence (rank taste) = [Some 99, Some 70, Some 60, Some 50] \<and>
   within_limits taste (rank taste)"
proof -
  have "map type (rank taste) = [''director'', ''actor'', ''actor'', ''genre'']"
    by code_simp
  moreover have "map confidence (rank taste) = [Some 99, Some 70, Some 60, Some 50]"
    by code_simp
  ultimately show ?thesis
    using suggestions_within_limits[of taste] by simp
qed

section \<open>The IDF table\<close>

lemma or_else_0: "or_else x 0 = (case x of None \<Rightarrow> 0 | Some v \<Rightarrow> v)"
  by (simp add: or_else_def split: option.splits)

lemma countTerm_seen:
  "set (snd (fold countTerm ks (tdc, seen))) = set seen \<union> set ks"
  by (induction ks arbitrary: tdc seen) auto

lemma countTerm_distinct:
  "distinct (keys tdc) \<Longrightarrow> distinct (keys (fst (fold countTerm ks (tdc, seen))))"
  by (induction ks arbitrary: tdc seen) (simp_all add: distinct_keys_assign)

lemma countTerm_lookup:
  "lookup (fst (fold countTerm ks (tdc, seen))) t =
     (if t \<in> set ks \<and> t \<notin> set seen then Some (or_else (lookup tdc t) 0 + 1) else lookup tdc t)"
proof (induction ks arbitrary: tdc seen)
  case Nil
  then show ?case by simp
next
  case (Cons k ks)
  show ?case
  proof (cases "k \<in> set seen")
    case True
    then show ?thesis
      using Cons.IH[of tdc seen] by auto
  next
    case False
    then show ?thesis
      using Cons.IH[of "assign k (or_else (lookup tdc k) 0 + 1) tdc" "seen @ [k]"]
      by (simp add: lookup_assign)
  qed
qed

lemma countMovie_counted:
  assumes "counted n tdc"
  shows "counted (\<lambda>t. n t + (if t \<in> set (keys (extractFeatures movie)) then 1 else 0))
           (countMovie movie tdc)"
proof -
  have "lookup (countMovie movie tdc) t =
          (if n t + (if t \<in> set (keys (extractFeatures movie)) then 1 else 0) = 0 then None
           else Some (real (n t + (if t \<in> set (keys (extractFeatures movie)) then 1 else 0))))"
    for t
    using assms
    by (simp add: countMovie_def countTerm_lookup counted_def or_else_0)
  moreover have "distinct (keys (countMovie movie tdc))"
    using assms by (simp add: countMovie_def countTerm_distinct counted_def)
  ultimately show ?thesis
    unfolding counted_def by blast
qed

lemma fold_countMovie_counted:
  "counted n tdc \<Longrightarrow>
   counted (\<lambda>t. n t + documentFrequency collection t) (fold countMovie collection tdc)"
proof (induction collection arbitrary: n tdc)
  case Nil
  then show ?case by (simp add: documentFrequency_def)
next
  case (Cons movie collection)
  have eq: "(\<lambda>t. n t + documentFrequency (movie # collection) t) =
            (\<lambda>t. n t + (if t \<in> set (keys (extractFeatures movie)) then 1 else 0) +
                  documentFrequency collection t)"
    by (rule ext) (simp add: documentFrequency_def)
  from Cons.IH[OF countMovie_counted[OF Cons.prems, of movie]]
  show ?case
    unfolding eq by simp
qed

lemma termDocCount_counted: "counted (documentFrequency collection) (termDocCount collection)"
  using fold_countMovie_counted[of "\<lambda>t. 0" "[]" collection]
  by (simp add: termDocCount_def counted_def)


lemma fold_entries_lookup:
  "distinct (map fst xs) \<Longrightarrow>
   lookup (fold (\<lambda>(k, v) p. assign k (g (lookup p k) k v) p) xs d) t =
     (case map_of xs t of None \<Rightarrow> lookup d t | Some v \<Rightarrow> Some (g (lookup d t) t v))"
proof (induction xs arbitrary: d)
  case Nil
  then show ?case by simp
next
  case (Cons x xs)
  obtain k v where x: "x = (k, v)"
    by (cases x)
  have n: "map_of xs k = None"
    using Cons.prems x by (simp add: map_of_eq_None_iff)
  show ?case
    using Cons.IH[of "assign k (g (lookup d k) k v) d"] Cons.prems n
    by (simp add: x lookup_assign split: option.split)
qed

lemma fold_entries_distinct:
  "distinct (keys d) \<Longrightarrow>
   distinct (keys (fold (\<lambda>(k, v) p. assign k (g (lookup p k) k v) p) xs d))"
  by (induction xs arbitrary: d) (auto simp: distinct_keys_assign)

lemma computeIDF_lookup:
  "lookup (snd (computeIDF this collection)) t =
     (if documentFrequency collection t = 0 then None
      else Some (ln (real (length collection) / real (documentFrequency collection t)) + 1))"
proof -
  have c: "counted (documentFrequency collection) (termDocCount collection)"
    by (rule termDocCount_counted)
  then have d: "distinct (map fst (termDocCount collection))"
    by (simp add: counted_def keys_def)
  have m: "map_of (termDocCount collection) t =
             (if documentFrequency collection t = 0 then None
              else Some (real (documentFrequency collection t)))"
    using c by (simp add: counted_def lookup_def)
  show ?thesis
    using fold_entries_lookup[OF d,
        of "\<lambda>old k v. ln (real (length collection) / v) + 1" "[]" t]
    by (simp add: computeIDF_def Let_def m)
qed

lemma documentFrequency_le: "documentFrequency collection t \<le> length collection"
  by (simp add: documentFrequency_def)

text \<open>
  C4. For a non-empty collection of \<open>N\<close> movies, \<open>computeIDF\<close> stores and returns a table
  that gives every term \<open>ln (N / df) + 1\<close>, where \<open>df\<close> is the number of movies whose
  feature vector holds the term, each movie counted once, and that has no entry for a
  term of no movie; every value of the table is at least 1.
\<close>

theorem computeIDF_values:
  assumes "collection \<noteq> []"
  shows "lookup (snd (computeIDF this collection))  t =
           (if documentFrequency collection t = 0 then None
            else Some (ln (real (length collection) /
                           real (documentFrequency collection t)) + 1)) \<and>
         idfCache (fst (computeIDF this collection)) = snd (computeIDF this collection) \<and>
         (\<forall>v. lookup (snd (computeIDF this collection))  t = Some v \<longrightarrow> 1 \<le> v)"
proof -
  have "1 \<le> ln (real (length collection) / real (documentFrequency collection t)) + 1"
    if "documentFrequency collection t \<noteq> 0"
  proof -
    have "1 \<le> real (length collection) / real (documentFrequency collection t)"
      using that documentFrequency_le[of collection t] by (simp add: le_divide_eq)
    then show ?thesis
      by simp
  qed
  moreover have "idfCache (fst (computeIDF this collection)) = snd (computeIDF this collection)"
    by (simp add: computeIDF_def Let_def)
  ultimately show ?thesis
    by (simp add: computeIDF_lookup)
qed

theorem computeIDF_values_witness:
  "[matrix, die_hard] \<noteq> [] \<and>
   lookup (snd (computeIDF engine0 [matrix, die_hard])) ''genre:action'' = Some 1 \<and>
   lookup (snd (computeIDF engine0 [matrix, die_hard])) ''genre:sci-fi'' = Some (ln 2 + 1) \<and>
   lookup (snd (computeIDF engine0 [matrix, die_hard])) ''genre:drama'' = None"
proof -
  have h: "[matrix, die_hard] \<noteq> []"
    by simp
  have d: "documentFrequency [matrix, die_hard] ''genre:action'' = 2"
          "documentFrequency [matrix, die_hard] ''genre:sci-fi'' = 1"
          "documentFrequency [matrix, die_hard] ''genre:drama'' = 0"
    by code_simp+
  show ?thesis
    using computeIDF_values[OF h, of engine0 "''genre:action''"]
          computeIDF_values[OF h, of engine0 "''genre:sci-fi''"]
          computeIDF_values[OF h, of engine0 "''genre:drama''"]
    by (simp add: d)
qed

section \<open>The user profile\<close>

lemma applyTFIDF_lookup:
  "lookup (applyTFIDF this (extractFeatures movie)) t =
     (case lookup (extractFeatures movie) t of
        None \<Rightarrow> None
      | Some tf \<Rightarrow> Some (tf * or_else (lookup (idfCache this) t) 1))"
  using fold_entries_lookup[of "extractFeatures movie"
          "\<lambda>old k v. v * or_else (lookup (idfCache this) k) 1" "[]" t]
        distinct_keys_extractFeatures[of movie]
  by (simp add: applyTFIDF_def keys_def lookup_def split: option.split)

lemma applyTFIDF_distinct: "distinct (keys (applyTFIDF this features))"
  using fold_entries_distinct[of "[]" "\<lambda>old k v. v * or_else (lookup (idfCache this) k) 1" features]
  by (simp add: applyTFIDF_def)

lemma contribution_absent:
  "documentFrequency collection t = 0 \<Longrightarrow> (\<Sum>movie \<leftarrow> collection. contribution this movie t) = 0"
  by (induction collection)
     (auto simp: documentFrequency_def contribution_def lookup_None_iff[symmetric] split: if_splits)

lemma addMovie_summed:
  assumes "summed this done p"
  shows "summed this (done @ [movie]) (fst (addMovie this movie (p, c))) \<and>
         snd (addMovie this movie (p, c)) = c + 1"
proof -
  let ?w = "applyTFIDF this (extractFeatures movie)"
  let ?p' = "fold (\<lambda>(term, value) profile.
                  assign term (or_else (lookup profile term) 0 + value * ratingBoost movie)
                    profile) ?w p"
  have a: "addMovie this movie (p, c) = (?p', c + 1)"
    by (simp add: addMovie_def Let_def)
  have dw: "distinct (map fst ?w)"
    using applyTFIDF_distinct[of this "extractFeatures movie"] by (simp add: keys_def)
  have l: "lookup ?p' t =
             (case map_of ?w t of None \<Rightarrow> lookup p t
              | Some v \<Rightarrow> Some (or_else (lookup p t) 0 + v * ratingBoost movie))" for t
    using fold_entries_lookup[OF dw, of "\<lambda>old k v. or_else old 0 + v * ratingBoost movie" p t]
    by simp
  have d: "distinct (keys ?p')"
    using assms fold_entries_distinct[of p "\<lambda>old k v. or_else old 0 + v * ratingBoost movie" ?w]
    by (simp add: summed_def)
  have df: "documentFrequency (done @ [movie]) t =
              documentFrequency done t + (if t \<in> set (keys (extractFeatures movie)) then 1 else 0)"
    for t
    by (simp add: documentFrequency_def)
  have v: "lookup ?p' t =
             (if documentFrequency (done @ [movie]) t = 0 then None
              else Some (\<Sum>m \<leftarrow> done @ [movie]. contribution this m t))" for t
  proof (cases "lookup (extractFeatures movie) t")
    case None
    then have "t \<notin> set (keys (extractFeatures movie))"
      by (simp add: lookup_None_iff)
    moreover have "map_of ?w t = None"
      using applyTFIDF_lookup[of this movie t] None by (simp add: lookup_def)
    ultimately show ?thesis
      using assms None by (simp add: l df summed_def contribution_def)
  next
    case (Some tf)
    then have k: "t \<in> set (keys (extractFeatures movie))"
      using lookup_None_iff[of "extractFeatures movie" t] by auto
    have m: "map_of ?w t = Some (tf * or_else (lookup (idfCache this) t) 1)"
      using applyTFIDF_lookup[of this movie t] Some by (simp add: lookup_def)
    have o: "or_else (lookup p t) 0 = (\<Sum>m \<leftarrow> done. contribution this m t)"
      using assms contribution_absent[of "done" t this] by (simp add: summed_def or_else_0)
    have "lookup ?p' t =
            Some (or_else (lookup p t) 0 +
                  tf * or_else (lookup (idfCache this) t) 1 * ratingBoost movie)"
      unfolding l m by simp
    then show ?thesis
      using Some k by (simp add: o df contribution_def)
  qed
  show ?thesis
    using d v by (simp add: a summed_def)
qed

lemma fold_addMovie_summed:
  "summed this done p \<Longrightarrow>
   summed this (done @ rest) (fst (fold (addMovie this) rest (p, c))) \<and>
   snd (fold (addMovie this) rest (p, c)) = c + real (length rest)"
proof (induction rest arbitrary: "done" p c)
  case Nil
  then show ?case by simp
next
  case (Cons movie rest)
  obtain p' where a: "addMovie this movie (p, c) = (p', c + 1)"
    using addMovie_summed[OF Cons.prems, of movie c] by (cases "addMovie this movie (p, c)") simp
  have s: "summed this (done @ [movie]) p'"
    using addMovie_summed[OF Cons.prems, of movie c] a by simp
  from Cons.IH[OF s, of "c + 1"] show ?case
    by (simp add: a)
qed

lemma accumulate_summed:
  "summed this collection (fst (accumulate this collection)) \<and>
   snd (accumulate this collection) = real (length collection)"
  using fold_addMovie_summed[of this "[]" "[]" collection 0]
  by (simp add: accumulate_def summed_def documentFrequency_def)

lemma divide_keys_lookup:
  "distinct ks \<Longrightarrow>
   lookup (fold (\<lambda>term profile.
             case lookup profile term of
               None \<Rightarrow> profile
             | Some v \<Rightarrow> assign term (v / count) profile) ks p) t =
     (if t \<in> set ks then map_option (\<lambda>v. v / count) (lookup p t) else lookup p t)"
proof (induction ks arbitrary: p)
  case Nil
  then show ?case by simp
next
  case (Cons k ks)
  let ?p' = "case lookup p k of None \<Rightarrow> p | Some v \<Rightarrow> assign k (v / count) p"
  have l: "lookup ?p' t = (if t = k then map_option (\<lambda>v. v / count) (lookup p k) else lookup p t)"
    by (simp add: lookup_assign split: option.split)
  show ?case
    using Cons.IH[of ?p'] Cons.prems l by auto
qed

lemma divide_all_lookup:
  "distinct (keys p) \<Longrightarrow> lookup (divide_all count p) t = map_option (\<lambda>v. v / count) (lookup p t)"
  using divide_keys_lookup[of "keys p" count p t] lookup_None_iff[of p t]
  by (auto simp: divide_all_def)


lemma contribution_spec:
  assumes "movie \<in> set collection"
  shows "contribution (fst (computeIDF this collection)) movie t =
           (case lookup (extractFeatures movie) t of
              None \<Rightarrow> 0
            | Some w \<Rightarrow>
                w * (case lookup (snd (computeIDF this collection)) t of None \<Rightarrow> 1 | Some i \<Rightarrow> i) *
                (if rating movie \<ge> 4 then 1.5 else if rating movie \<ge> 3 then 1.0 else 0.7))"
proof (cases "lookup (extractFeatures movie) t")
  case None
  then show ?thesis
    by (simp add: contribution_def)
next
  case (Some w)
  then have "t \<in> set (keys (extractFeatures movie))"
    using lookup_None_iff[of "extractFeatures movie" t] by auto
  with assms have "filter (\<lambda>m. t \<in> set (keys (extractFeatures m))) collection \<noteq> []"
    by (auto simp: filter_empty_conv)
  then have df: "documentFrequency collection t \<noteq> 0"
    by (simp add: documentFrequency_def)
  have "1 \<le> real (length collection) / real (documentFrequency collection t)"
    using df documentFrequency_le[of collection t] by (simp add: le_divide_eq)
  then have "ln (real (length collection) / real (documentFrequency collection t)) + 1 \<noteq> 0"
    using ln_ge_zero[of "real (length collection) / real (documentFrequency collection t)"]
    by linarith
  moreover have "idfCache (fst (computeIDF this collection)) = snd (computeIDF this collection)"
    by (simp add: computeIDF_def Let_def)
  ultimately show ?thesis
    using Some df
    by (simp add: contribution_def computeIDF_lookup or_else_def ratingBoost_def)
qed

text \<open>
  C5. For a non-empty collection, \<open>_buildUserProfileJS\<close> stores and returns a profile
  whose terms are those of the movies, each with the sum over the movies of extracted
  weight times IDF times boost, divided by the number of movies of the collection. The
  IDF table is the one \<open>computeIDF\<close> has just stored, a term absent from it counting as
  1.0; the boost is 1.5 for a rating of 4 or more, 1.0 for 3 or more and 0.7 otherwise,
  also for the rating 0 of an unrated movie.
\<close>

theorem buildUserProfileJS_profile:
  assumes "collection \<noteq> []"
  shows "lookup (snd (buildUserProfileJS this collection)) t =
           (if documentFrequency collection t = 0 then None
            else Some (specProfile (snd (computeIDF this collection)) collection t)) \<and>
         userProfile (fst (buildUserProfileJS this collection)) =
           snd (buildUserProfileJS this collection) \<and>
         idfCache (fst (buildUserProfileJS this collection)) = snd (computeIDF this collection)"
proof -
  let ?r = "fst (computeIDF this collection)"
  let ?acc = "accumulate ?r collection"
  have b: "buildUserProfileJS this collection =
             (?r\<lparr>userProfile := divide_all (snd ?acc) (fst ?acc)\<rparr>,
              divide_all (snd ?acc) (fst ?acc))"
    using assms by (simp add: buildUserProfileJS_def Let_def split: prod.splits)
  have s: "summed ?r collection (fst ?acc)" and c: "snd ?acc = real (length collection)"
    using accumulate_summed[of ?r collection] by simp_all
  have "(\<Sum>movie \<leftarrow> collection. contribution ?r movie t) / real (length collection) =
          specProfile (snd (computeIDF this collection)) collection t"
    unfolding specProfile_def
    by (rule arg_cong[where f = "\<lambda>x. x / real (length collection)"],
        rule arg_cong[where f = sum_list], rule map_cong, simp, rule contribution_spec)
  then have "lookup (divide_all (snd ?acc) (fst ?acc)) t =
          (if documentFrequency collection t = 0 then None
           else Some (specProfile (snd (computeIDF this collection)) collection t))"
    using s by (simp add: divide_all_lookup c summed_def)
  moreover have "idfCache ?r = snd (computeIDF this collection)"
    by (simp add: computeIDF_def Let_def)
  ultimately show ?thesis
    by (simp add: b)
qed

theorem buildUserProfileJS_profile_witness:
  "[matrix, die_hard] \<noteq> [] \<and> rating die_hard = 0 \<and>
   lookup (snd (buildUserProfileJS engine0 [matrix, die_hard])) ''genre:action'' = Some 2.2 \<and>
   lookup (snd (buildUserProfileJS engine0 [matrix, die_hard])) ''genre:drama'' = None"
proof -
  have h: "[matrix, die_hard] \<noteq> []"
    by simp
  have d: "documentFrequency [matrix, die_hard] ''genre:action'' = 2"
          "documentFrequency [matrix, die_hard] ''genre:drama'' = 0"
    by code_simp+
  have f: "lookup (extractFeatures matrix) ''genre:action'' = Some 2"
          "lookup (extractFeatures die_hard) ''genre:action'' = Some 2"
    by code_simp+
  have r: "rating matrix = 5" "rating die_hard = 0"
    by (simp_all add: matrix_def die_hard_def)
  have s: "specProfile (snd (computeIDF engine0 [matrix, die_hard])) [matrix, die_hard]
             ''genre:action'' = 2.2"
    by (simp add: specProfile_def computeIDF_lookup d f r)
  show ?thesis
    using buildUserProfileJS_profile[OF h, of engine0 "''genre:action''"]
          buildUserProfileJS_profile[OF h, of engine0 "''genre:drama''"]
    by (simp add: d s r)
qed

section \<open>Cosine similarity\<close>

lemma or_else_weight: "or_else (lookup v t) 0 = weight_of v t"
  by (simp add: or_else_def weight_of_def split: option.splits)

lemma new_Set_fold:
  "distinct s \<Longrightarrow>
   distinct (fold (\<lambda>x s. if x \<in> set s then s else s @ [x]) xs s) \<and>
   set (fold (\<lambda>x s. if x \<in> set s then s else s @ [x]) xs s) = set s \<union> set xs"
  by (induction xs arbitrary: s) auto

lemma new_Set: "distinct (new_Set xs) \<and> set (new_Set xs) = set xs"
  using new_Set_fold[of "[]" xs] by (simp add: new_Set_def)

lemma fold_sums:
  "fold (\<lambda>term (dotProduct, magnitudeA, magnitudeB).
           (dotProduct + f term * g term, magnitudeA + f term * f term,
            magnitudeB + g term * g term)) ts (d, ma, mb) =
     (d + (\<Sum>t \<leftarrow> ts. f t * g t), ma + (\<Sum>t \<leftarrow> ts. f t * f t), mb + (\<Sum>t \<leftarrow> ts. g t * g t))"
  by (induction ts arbitrary: d ma mb) (simp_all add: Let_def algebra_simps)

lemma cosine_eq_spec: "cosineSimilarity vecA vecB = cosine_spec vecA vecB"
proof -
  let ?ts = "new_Set (keys vecA @ keys vecB)"
  have s: "(\<Sum>t \<leftarrow> ?ts. h t) = (\<Sum>t \<in> set (keys vecA) \<union> set (keys vecB). h t)" for h :: "string \<Rightarrow> real"
    using new_Set[of "keys vecA @ keys vecB"] sum_list_distinct_conv_sum_set[of ?ts h] by simp
  show ?thesis
    by (simp add: cosineSimilarity_def cosine_spec_def Let_def or_else_weight fold_sums s power2_eq_square)
qed







subsection \<open>Doubles\<close>


lemma rnd_zero [simp]: "rnd 0 e = Finite 0 0"
  by (simp add: rnd_def)
















lemma bit_length_bound: "0 \<le> n \<Longrightarrow> n < 2 ^ bit_length n"
proof (induction n rule: bit_length.induct)
  case (1 n)
  show ?case
  proof (cases "n \<le> 0")
    case True
    with "1.prems" show ?thesis
      by (simp add: bit_length.simps[of n])
  next
    case False
    then have "n div 2 < 2 ^ bit_length (n div 2)"
      using "1.IH" "1.prems" by simp
    then have "n < 2 * 2 ^ bit_length (n div 2)"
      by linarith
    with False show ?thesis
      by (simp add: bit_length.simps[of n])
  qed
qed

lemma isqrt_bits_correct:
  "0 \<le> r \<Longrightarrow> r\<^sup>2 \<le> n \<Longrightarrow> n < (r + 2 ^ b)\<^sup>2 \<Longrightarrow>
   (isqrt_bits b n r)\<^sup>2 \<le> n \<and> n < (isqrt_bits b n r + 1)\<^sup>2"
proof (induction b arbitrary: r)
  case 0
  then show ?case by simp
next
  case (Suc b)
  show ?case
  proof (cases "(r + 2 ^ b)\<^sup>2 \<le> n")
    case True
    have "r + 2 ^ b + 2 ^ b = r + 2 ^ Suc b"
      by simp
    then have "n < (r + 2 ^ b + 2 ^ b)\<^sup>2"
      using Suc.prems(3) by (simp only:)
    then show ?thesis
      using Suc.IH[of "r + 2 ^ b"] Suc.prems(1) True by simp
  next
    case False
    then show ?thesis
      using Suc.IH[of r] Suc.prems(1,2) by simp
  qed
qed

lemma isqrt_correct: "0 \<le> n \<Longrightarrow> (isqrt n)\<^sup>2 \<le> n \<and> n < (isqrt n + 1)\<^sup>2"
proof -
  assume n: "0 \<le> n"
  have "n < 2 ^ bit_length n"
    using n by (rule bit_length_bound)
  also have "(2::int) ^ bit_length n \<le> (2 ^ bit_length n)\<^sup>2"
    by (simp add: power2_eq_square self_le_power)
  finally show ?thesis
    using n isqrt_bits_correct[of 0 n "bit_length n"] by (simp add: isqrt_def)
qed

lemma double_arithmetic_examples:
  "dadd (Finite 3602879701896397 (- 55)) (Finite 3602879701896397 (- 54)) =
     Finite 5404319552844596 (- 54)"
  "ddiv (Finite 1 0) (Finite 3 0) = Finite 6004799503160661 (- 54)"
  "dsqrt (Finite 2 0) = Finite 6369051672525773 (- 52)"
  "dmul (Finite 1 (- 1074)) (Finite 1 (- 1)) = Finite 0 0"
  "dmul (Finite 1 1023) (Finite 2 0) = Infinity False"
  by code_simp+





end
